theory Spec2Isabelle
  imports Main
begin

section \<open>Data model of bot.py\<close>

text \<open>
  A Python \<open>str\<close> is a sequence of Unicode code points and \<open>len\<close> counts code points,
  so a string is modelled as a list of code points. \<open>asc\<close> embeds an ASCII literal.
\<close>

type_synonym pystr = "nat list"

definition asc :: "string \<Rightarrow> pystr" where
  "asc s = map of_char s"

text \<open>Python's \<open>str(n)\<close> for an integer: decimal digits, with a minus sign when negative.\<close>

function str_nat :: "nat \<Rightarrow> pystr" where
  "str_nat n = (if n < 10 then [48 + n] else str_nat (n div 10) @ [48 + n mod 10])"
  by pat_completeness auto
termination
  by lexicographic_order

declare str_nat.simps [simp del]

definition str_int :: "int \<Rightarrow> pystr" where
  "str_int i = (if i < 0 then 45 # str_nat (nat (- i)) else str_nat (nat i))"

text \<open>
  The module-level configuration read from the environment (lines 27-49):
  \<open>ADMIN_ID\<close>, and whether \<open>genai_client\<close> is a client object (\<open>True\<close>) or
  \<open>None\<close> (\<open>False\<close>).
\<close>

record config =
  ADMIN_ID :: int
  genai_client :: bool

text \<open>
  \<open>context.bot_data\<close> is a dict with two possible keys, each of which may be absent:
  \<open>"admin_available"\<close> and \<open>"forwarded_map"\<close> (itself a dict from the id of the
  forwarded copy to the chat id the message came from).
\<close>

record bot_data =
  admin_available :: "bool option"
  forwarded_map :: "(int \<rightharpoonup> int) option"

text \<open>
  The part of a Telegram update the handlers read. The update is assumed to carry a
  message and a sender. \<open>command\<close> is the name of the bot command the text starts with,
  if any (what the library's command filter detects); \<open>media\<close> is the kind of
  attachment, if any; \<open>reply_to_message\<close> is the id of the message replied to, if any.
\<close>

datatype media = Photo | Sticker | Document | Voice | OtherMedia

record tg_update =
  user_id :: int
  first_name :: pystr
  chat_id :: int
  message_id :: int
  msg_text :: "pystr option"
  reply_to_message :: "int option"
  command :: "pystr option"
  media :: "media option"

text \<open>
  Outbound calls, recorded in the order the handlers issue them:
  \<open>bot.forward_message(chat_id, from_chat_id, message_id)\<close>,
  \<open>bot.send_message(chat_id, text)\<close>, \<open>message.reply_text(text)\<close> (with the chat it
  goes to) and \<open>genai_client.models.generate_content(contents)\<close>.
\<close>

datatype call =
  ForwardMessage int int int
| SendMessage int pystr
| ReplyText int pystr
| GenerateContent pystr

text \<open>The response object of the generation service: its \<open>text\<close> attribute (absent or
  \<open>None\<close> is \<open>None\<close>) and its \<open>str()\<close>.\<close>

record gen_response =
  resp_text :: "pystr option"
  resp_str :: pystr

text \<open>
  The two external services. Each outcome may depend on every call issued so far.
  A forward returns the id of the forwarded copy or raises (\<open>None\<close>); a send returns
  or raises (\<open>False\<close>); a generation returns a response or raises (\<open>None\<close>).
\<close>

record env =
  forward_message_result :: "call list \<Rightarrow> int \<Rightarrow> int \<Rightarrow> int \<Rightarrow> int option"
  send_ok :: "call list \<Rightarrow> int \<Rightarrow> pystr \<Rightarrow> bool"
  generate_content_result :: "call list \<Rightarrow> pystr \<Rightarrow> gen_response option"

record bot_state =
  bd :: bot_data
  calls :: "call list"

datatype error = TelegramError

section \<open>Outbound calls\<close>

definition forward_message ::
  "env \<Rightarrow> int \<Rightarrow> int \<Rightarrow> int \<Rightarrow> bot_state \<Rightarrow> int option \<times> bot_state" where
  "forward_message e to from mid s =
     (forward_message_result e (calls s) to from mid,
      s\<lparr>calls := calls s @ [ForwardMessage to from mid]\<rparr>)"

definition send_message :: "env \<Rightarrow> int \<Rightarrow> pystr \<Rightarrow> bot_state \<Rightarrow> bool \<times> bot_state" where
  "send_message e to t s =
     (send_ok e (calls s) to t, s\<lparr>calls := calls s @ [SendMessage to t]\<rparr>)"

definition reply_text :: "env \<Rightarrow> tg_update \<Rightarrow> pystr \<Rightarrow> bot_state \<Rightarrow> bool \<times> bot_state" where
  "reply_text e u t s =
     (send_ok e (calls s) (chat_id u) t, s\<lparr>calls := calls s @ [ReplyText (chat_id u) t]\<rparr>)"

definition generate_content ::
  "env \<Rightarrow> pystr \<Rightarrow> bot_state \<Rightarrow> gen_response option \<times> bot_state" where
  "generate_content e p s =
     (generate_content_result e (calls s) p, s\<lparr>calls := calls s @ [GenerateContent p]\<rparr>)"

text \<open>A call outside any \<open>try\<close>: the exception leaves the handler.\<close>

definition raise_unless :: "bool \<times> bot_state \<Rightarrow> (error + unit) \<times> bot_state" where
  "raise_unless r = ((if fst r then Inr () else Inl TelegramError), snd r)"

section \<open>Fixed texts\<close>

definition NOTICE_48H :: pystr where
  "NOTICE_48H = asc ''Admin will reply in 48 hours.''"

definition NOW_AVAILABLE :: pystr where
  "NOW_AVAILABLE = asc ''Admin is now AVAILABLE.''"

definition NOW_AWAY :: pystr where
  "NOW_AWAY = asc ''Admin is now AWAY.''"

definition CANNOT_FIND :: pystr where
  "CANNOT_FIND = 10060 # asc '' Cannot find the user to reply to.''"

definition SENT_TO_USER :: pystr where
  "SENT_TO_USER = 9989 # asc '' Sent to user.''"

definition FAILED_TO_SEND :: pystr where
  "FAILED_TO_SEND = 10060 # asc '' Failed to send message to user.''"

definition REPLYING :: pystr where
  "REPLYING = asc ''Admin is away '' @ [8212] @ asc '' I'm replying... '' @ [129302]"

definition NO_CLIENT_FALLBACK :: pystr where
  "NO_CLIENT_FALLBACK = asc ''Sorry, I cannot reply right now.''"

definition GEMINI_ERROR_FALLBACK :: pystr where
  "GEMINI_ERROR_FALLBACK = asc ''Sorry '' @ [8212] @ asc '' I can't reply right now.''"

definition ELLIPSIS :: pystr where
  "ELLIPSIS = asc ''...''"

section \<open>Routing state\<close>

text \<open>
  Line 128, \<open>bot_data.setdefault("forwarded_map", {})[forwarded.message_id] = chat_id\<close>:
  the inner dict is created when absent, then the entry is assigned.
\<close>

definition the_forwarded_map :: "bot_data \<Rightarrow> (int \<rightharpoonup> int)" where
  "the_forwarded_map d = (case forwarded_map d of None \<Rightarrow> Map.empty | Some m \<Rightarrow> m)"

definition recordForward :: "bot_data \<Rightarrow> int \<Rightarrow> int \<Rightarrow> bot_data" where
  "recordForward d fid origin =
     d\<lparr>forwarded_map := Some ((the_forwarded_map d)(fid \<mapsto> origin))\<rparr>"

text \<open>
  Lines 95-96, \<open>bot_data.get("forwarded_map", {}).get(replied.message_id)\<close>:
  the stored chat id, or \<open>None\<close> when the key is absent.
\<close>

definition resolveOrigin :: "bot_data \<Rightarrow> int \<Rightarrow> int option" where
  "resolveOrigin d fid = the_forwarded_map d fid"

text \<open>Line 136, \<open>bot_data.get("admin_available", False)\<close>.\<close>

definition getAvailability :: "bot_data \<Rightarrow> bool" where
  "getAvailability d = (case admin_available d of None \<Rightarrow> False | Some b \<Rightarrow> b)"

section \<open>Auto-reply adapter (lines 51-64)\<close>

text \<open>Line 60, \<open>getattr(response, "text", "") or str(response)\<close>.\<close>

definition response_text :: "gen_response \<Rightarrow> pystr" where
  "response_text r =
     (case resp_text r of
        None \<Rightarrow> resp_str r
      | Some t \<Rightarrow> if t = [] then resp_str r else t)"

text \<open>
  Without a client the first fallback is returned and no call is made. Otherwise the
  call runs inside \<open>try\<close>: any exception becomes the second fallback.
\<close>

definition ask_gemini ::
  "config \<Rightarrow> env \<Rightarrow> pystr \<Rightarrow> bot_state \<Rightarrow> (error + pystr) \<times> bot_state" where
  "ask_gemini cfg e prompt s =
     (if \<not> genai_client cfg then (Inr NO_CLIENT_FALLBACK, s)
      else
        (case generate_content e prompt s of
           (None, s1) \<Rightarrow> (Inr GEMINI_ERROR_FALLBACK, s1)
         | (Some r, s1) \<Rightarrow> (Inr (response_text r), s1)))"

section \<open>Commands (lines 70-83)\<close>

definition start_cmd ::
  "config \<Rightarrow> env \<Rightarrow> tg_update \<Rightarrow> bot_state \<Rightarrow> (error + unit) \<times> bot_state" where
  "start_cmd cfg e u s = raise_unless (reply_text e u NOTICE_48H s)"

definition available_cmd ::
  "config \<Rightarrow> env \<Rightarrow> tg_update \<Rightarrow> bot_state \<Rightarrow> (error + unit) \<times> bot_state" where
  "available_cmd cfg e u s =
     (if user_id u \<noteq> ADMIN_ID cfg then (Inr (), s)
      else raise_unless
        (reply_text e u NOW_AVAILABLE (s\<lparr>bd := (bd s)\<lparr>admin_available := Some True\<rparr>\<rparr>)))"

definition away_cmd ::
  "config \<Rightarrow> env \<Rightarrow> tg_update \<Rightarrow> bot_state \<Rightarrow> (error + unit) \<times> bot_state" where
  "away_cmd cfg e u s =
     (if user_id u \<noteq> ADMIN_ID cfg then (Inr (), s)
      else raise_unless
        (reply_text e u NOW_AWAY (s\<lparr>bd := (bd s)\<lparr>admin_available := Some False\<rparr>\<rparr>)))"

section \<open>Administrator reply (lines 86-111)\<close>

text \<open>
  The text of the message, empty when it has none: \<open>update.message.text or ""\<close> at
  line 116, and the value whose truth \<open>if msg.text\<close> tests at line 104.
\<close>

definition text_or_empty :: "tg_update \<Rightarrow> pystr" where
  "text_or_empty u = (case msg_text u of None \<Rightarrow> [] | Some t \<Rightarrow> t)"

text \<open>
  Lines 102-111. The send (or forward) and the confirmation are inside one \<open>try\<close>;
  when either raises, the failure notice is sent from the \<open>except\<close> block, where an
  exception is no longer caught.
\<close>

definition send_admin_reply ::
  "env \<Rightarrow> tg_update \<Rightarrow> int \<Rightarrow> bot_state \<Rightarrow> (error + unit) \<times> bot_state" where
  "send_admin_reply e u user_chat_id s =
     (let (ok1, s1) =
            (if text_or_empty u \<noteq> []
             then send_message e user_chat_id (text_or_empty u) s
             else (case forward_message e user_chat_id (chat_id u) (message_id u) s of
                     (r, s') \<Rightarrow> (r \<noteq> None, s')))
      in if ok1
         then (case reply_text e u SENT_TO_USER s1 of
                 (True, s2) \<Rightarrow> (Inr (), s2)
               | (False, s2) \<Rightarrow> raise_unless (reply_text e u FAILED_TO_SEND s2))
         else raise_unless (reply_text e u FAILED_TO_SEND s1))"

text \<open>
  Lines 87-100. Line 98, \<open>not user_chat_id\<close>, is true for \<open>None\<close> (the key is absent)
  and for the integer 0.
\<close>

definition admin_reply_handler ::
  "config \<Rightarrow> env \<Rightarrow> tg_update \<Rightarrow> bot_state \<Rightarrow> (error + unit) \<times> bot_state" where
  "admin_reply_handler cfg e u s =
     (if user_id u \<noteq> ADMIN_ID cfg then (Inr (), s)
      else
        (case reply_to_message u of
           None \<Rightarrow> (Inr (), s)
         | Some replied \<Rightarrow>
             (case resolveOrigin (bd s) replied of
                None \<Rightarrow> raise_unless (reply_text e u CANNOT_FIND s)
              | Some user_chat_id \<Rightarrow>
                  if user_chat_id = 0
                  then raise_unless (reply_text e u CANNOT_FIND s)
                  else send_admin_reply e u user_chat_id s)))"

section \<open>Inbound message (lines 114-171)\<close>

text \<open>Line 132, the plain-text notification sent when the forward raises.\<close>

definition fallback_text :: "tg_update \<Rightarrow> pystr" where
  "fallback_text u =
     asc ''Message from '' @ first_name u @ asc '' ('' @ str_int (user_id u) @ asc ''):''
       @ [10] @ text_or_empty u"

text \<open>
  Lines 121-134. On a successful forward the routing entry is recorded; when the
  forward raises, the notification is attempted and its own failure is swallowed.
\<close>

definition forward_to_admin :: "config \<Rightarrow> env \<Rightarrow> tg_update \<Rightarrow> bot_state \<Rightarrow> bot_state" where
  "forward_to_admin cfg e u s =
     (case forward_message e (ADMIN_ID cfg) (chat_id u) (message_id u) s of
        (Some fid, s1) \<Rightarrow> s1\<lparr>bd := recordForward (bd s1) fid (chat_id u)\<rparr>
      | (None, s1) \<Rightarrow> snd (send_message e (ADMIN_ID cfg) (fallback_text u) s1))"

text \<open>Line 149, the prompt template.\<close>

definition prompt_for :: "tg_update \<Rightarrow> pystr" where
  "prompt_for u =
     asc ''Reply politely and briefly to this user message: '' @ text_or_empty u"

text \<open>Lines 151-152.\<close>

definition truncate_reply :: "pystr \<Rightarrow> pystr" where
  "truncate_reply reply =
     (if length reply > 4000 then take 3990 reply @ ELLIPSIS else reply)"

text \<open>
  Lines 136-167. Every \<open>reply_text\<close> is inside a \<open>try\<close> that swallows the exception,
  except the notice of line 148.
\<close>

definition handle_message ::
  "config \<Rightarrow> env \<Rightarrow> tg_update \<Rightarrow> bot_state \<Rightarrow> (error + unit) \<times> bot_state" where
  "handle_message cfg e u s =
     (let s1 = forward_to_admin cfg e u s
      in if getAvailability (bd s1)
         then (Inr (), snd (reply_text e u NOTICE_48H s1))
         else if genai_client cfg
         then
           (case reply_text e u REPLYING s1 of
              (False, s2) \<Rightarrow> (Inl TelegramError, s2)
            | (True, s2) \<Rightarrow>
                (case ask_gemini cfg e (prompt_for u) s2 of
                   (Inl err, s3) \<Rightarrow> (Inl err, s3)
                 | (Inr reply, s3) \<Rightarrow>
                     (let s4 = snd (reply_text e u (truncate_reply reply) s3)
                      in (Inr (), snd (reply_text e u NOTICE_48H s4)))))
         else
           (let s2 = snd (reply_text e u NOTICE_48H s1)
            in (Inr (), snd (reply_text e u NOTICE_48H s2))))"

definition photo_handler ::
  "config \<Rightarrow> env \<Rightarrow> tg_update \<Rightarrow> bot_state \<Rightarrow> (error + unit) \<times> bot_state" where
  "photo_handler cfg e u s = handle_message cfg e u s"

section \<open>Handler registration (lines 177-182)\<close>

text \<open>
  All six handlers are registered in the same group, so the library runs the first
  one whose filter accepts the update and no other: the three command handlers, then
  the handler for any message that is a reply, then the media handler, then the
  handler for everything that is not a command.
\<close>

definition is_media4 :: "tg_update \<Rightarrow> bool" where
  "is_media4 u = (media u = Some Photo \<or> media u = Some Sticker
                  \<or> media u = Some Document \<or> media u = Some Voice)"

definition dispatch ::
  "config \<Rightarrow> env \<Rightarrow> tg_update \<Rightarrow> bot_state \<Rightarrow> (error + unit) \<times> bot_state" where
  "dispatch cfg e u s =
     (if command u = Some (asc ''start'') then start_cmd cfg e u s
      else if command u = Some (asc ''available'') then available_cmd cfg e u s
      else if command u = Some (asc ''away'') then away_cmd cfg e u s
      else if reply_to_message u \<noteq> None then admin_reply_handler cfg e u s
      else if is_media4 u then photo_handler cfg e u s
      else if command u = None then handle_message cfg e u s
      else (Inr (), s))"

section \<open>Observations on a run\<close>

text \<open>
  The calls the forwarding step of the inbound handler issues from a state: the forward,
  followed by the plain-text notification when the forward raises.
\<close>

definition forward_calls :: "config \<Rightarrow> env \<Rightarrow> tg_update \<Rightarrow> bot_state \<Rightarrow> call list" where
  "forward_calls cfg e u s =
     (case forward_message_result e (calls s) (ADMIN_ID cfg) (chat_id u) (message_id u) of
        Some fid \<Rightarrow> [ForwardMessage (ADMIN_ID cfg) (chat_id u) (message_id u)]
      | None \<Rightarrow> [ForwardMessage (ADMIN_ID cfg) (chat_id u) (message_id u),
                 SendMessage (ADMIN_ID cfg) (fallback_text u)])"

text \<open>The number of calls to the generation service issued so far.\<close>

fun is_generate :: "call \<Rightarrow> bool" where
  "is_generate (GenerateContent p) = True"
| "is_generate _ = False"

definition generation_calls :: "bot_state \<Rightarrow> nat" where
  "generation_calls s = length (filter is_generate (calls s))"

text \<open>
  The text \<open>ask_gemini\<close> returns inside the inbound handler, where it is called after
  the forwarding step and the notice of line 148.
\<close>

definition auto_reply :: "config \<Rightarrow> env \<Rightarrow> tg_update \<Rightarrow> bot_state \<Rightarrow> pystr" where
  "auto_reply cfg e u s =
     (case generate_content_result e
             (calls s @ forward_calls cfg e u s @ [ReplyText (chat_id u) REPLYING])
             (prompt_for u) of
        None \<Rightarrow> GEMINI_ERROR_FALLBACK
      | Some r \<Rightarrow> response_text r)"

section \<open>Concrete configurations, services, updates and states\<close>

definition cfg_client :: config where
  "cfg_client = \<lparr>ADMIN_ID = 99, genai_client = True\<rparr>"

definition cfg_no_client :: config where
  "cfg_no_client = \<lparr>ADMIN_ID = 99, genai_client = False\<rparr>"

definition env_ok :: env where
  "env_ok = \<lparr>forward_message_result = (\<lambda>h to from mid. Some 500),
             send_ok = (\<lambda>h to t. True),
             generate_content_result =
               (\<lambda>h p. Some \<lparr>resp_text = Some (asc ''Hi there''), resp_str = asc ''<response>''\<rparr>)\<rparr>"

definition env_empty_text :: env where
  "env_empty_text = env_ok\<lparr>generate_content_result :=
      (\<lambda>h p. Some \<lparr>resp_text = Some [], resp_str = asc ''<response>''\<rparr>)\<rparr>"


definition env_gen_fails :: env where
  "env_gen_fails = env_ok\<lparr>generate_content_result := (\<lambda>h p. None)\<rparr>"

definition user_msg :: tg_update where
  "user_msg = \<lparr>user_id = 7, first_name = asc ''Ann'', chat_id = 7, message_id = 1,
               msg_text = Some (asc ''Hello''), reply_to_message = None, command = None,
               media = None\<rparr>"

definition st_away :: bot_state where
  "st_away = \<lparr>bd = \<lparr>admin_available = None, forwarded_map = None\<rparr>, calls = []\<rparr>"

definition st_available :: bot_state where
  "st_available = \<lparr>bd = \<lparr>admin_available = Some True, forwarded_map = None\<rparr>, calls = []\<rparr>"

definition admin_reply_msg :: tg_update where
  "admin_reply_msg = \<lparr>user_id = 99, first_name = asc ''Boss'', chat_id = 99, message_id = 40,
               msg_text = Some (asc ''Thanks''), reply_to_message = Some 500, command = None,
               media = None\<rparr>"

definition user_reply_msg :: tg_update where
  "user_reply_msg = user_msg\<lparr>message_id := 4, reply_to_message := Some 3\<rparr>"

definition user_available_cmd :: tg_update where
  "user_available_cmd =
     user_msg\<lparr>msg_text := Some (asc ''/available''), command := Some (asc ''available'')\<rparr>"

definition user_away_cmd :: tg_update where
  "user_away_cmd = user_msg\<lparr>msg_text := Some (asc ''/away''), command := Some (asc ''away'')\<rparr>"

definition st_mapped :: "int \<Rightarrow> bot_state" where
  "st_mapped origin =
     \<lparr>bd = \<lparr>admin_available = None, forwarded_map = Some [500 \<mapsto> origin]\<rparr>, calls = []\<rparr>"

definition bd_one :: bot_data where
  "bd_one = \<lparr>admin_available = None, forwarded_map = Some [500 \<mapsto> 7]\<rparr>"

section \<open>The calls of the inbound handler, branch by branch\<close>

lemma forward_to_admin_calls:
  "calls (forward_to_admin cfg e u s) = calls s @ forward_calls cfg e u s"
  by (simp add: forward_to_admin_def forward_calls_def forward_message_def send_message_def
      split: option.splits)

lemma forward_to_admin_available:
  "getAvailability (bd (forward_to_admin cfg e u s)) = getAvailability (bd s)"
  by (simp add: forward_to_admin_def forward_message_def send_message_def getAvailability_def
      recordForward_def split: option.splits)

lemma reply_text_calls:
  "calls (snd (reply_text e u t s)) = calls s @ [ReplyText (chat_id u) t]"
  by (simp add: reply_text_def)

lemma handle_message_available:
  assumes "getAvailability (bd s)"
  shows "fst (handle_message cfg e u s) = Inr ()"
    and "calls (snd (handle_message cfg e u s)) =
           calls s @ forward_calls cfg e u s @ [ReplyText (chat_id u) NOTICE_48H]"
  using assms
  by (simp_all add: handle_message_def Let_def forward_to_admin_available reply_text_calls
      forward_to_admin_calls)

lemma handle_message_away_no_client:
  assumes "\<not> getAvailability (bd s)" and "\<not> genai_client cfg"
  shows "fst (handle_message cfg e u s) = Inr ()"
    and "calls (snd (handle_message cfg e u s)) =
           calls s @ forward_calls cfg e u s
             @ [ReplyText (chat_id u) NOTICE_48H, ReplyText (chat_id u) NOTICE_48H]"
  using assms
  by (simp_all add: handle_message_def Let_def forward_to_admin_available reply_text_calls
      forward_to_admin_calls)

lemma handle_message_away_client:
  assumes "\<not> getAvailability (bd s)" and "genai_client cfg"
    and "send_ok e (calls s @ forward_calls cfg e u s) (chat_id u) REPLYING"
  shows "fst (handle_message cfg e u s) = Inr ()"
    and "calls (snd (handle_message cfg e u s)) =
           calls s @ forward_calls cfg e u s
             @ [ReplyText (chat_id u) REPLYING, GenerateContent (prompt_for u),
                ReplyText (chat_id u) (truncate_reply (auto_reply cfg e u s)),
                ReplyText (chat_id u) NOTICE_48H]"
  using assms
  by (simp_all add: handle_message_def Let_def forward_to_admin_available
      forward_to_admin_calls reply_text_def ask_gemini_def generate_content_def auto_reply_def
      split: option.splits prod.splits bool.splits)

section \<open>The not-found path of the administrator reply\<close>

lemma admin_reply_not_found:
  "user_id u = ADMIN_ID cfg \<Longrightarrow> reply_to_message u = Some replied \<Longrightarrow>
   resolveOrigin (bd s) replied = None \<or> resolveOrigin (bd s) replied = Some 0 \<Longrightarrow>
   admin_reply_handler cfg e u s = raise_unless (reply_text e u CANNOT_FIND s)"
  by (auto simp add: admin_reply_handler_def)

lemma raise_unless_reply_text:
  "bd (snd (raise_unless (reply_text e u t s))) = bd s"
  "calls (snd (raise_unless (reply_text e u t s))) = calls s @ [ReplyText (chat_id u) t]"
  by (simp_all add: raise_unless_def reply_text_def)

text \<open>
  With a non-zero chat id recorded for the replied-to message, the administrator's text
  goes to that chat and the administrator gets the confirmation.
\<close>

lemma admin_reply_found:
  "calls (snd (admin_reply_handler cfg_client env_ok admin_reply_msg (st_mapped 7))) =
     [SendMessage 7 (asc ''Thanks''), ReplyText 99 SENT_TO_USER]"
  by (simp add: admin_reply_handler_def send_admin_reply_def admin_reply_msg_def
      cfg_client_def st_mapped_def the_forwarded_map_def resolveOrigin_def
      text_or_empty_def asc_def send_message_def reply_text_def env_ok_def)

text \<open>
  A message that is not a reply takes the inbound handler and is forwarded to the
  administrator.
\<close>

lemma nonreply_is_forwarded:
  "calls (snd (dispatch cfg_client env_ok user_msg st_away)) =
     [ForwardMessage 99 7 1, ReplyText 7 REPLYING, GenerateContent (prompt_for user_msg),
        ReplyText 7 (asc ''Hi there''), ReplyText 7 NOTICE_48H]"
  using handle_message_away_client(2) [of st_away cfg_client env_ok user_msg]
  by (simp add: dispatch_def st_away_def cfg_client_def env_ok_def
      user_msg_def getAvailability_def forward_calls_def auto_reply_def truncate_reply_def
      response_text_def asc_def is_media4_def)

section \<open>Routing through the handlers\<close>

text \<open>
  Only the forwarding step changes \<open>bot_data\<close> in the inbound handler, and after a
  successful forward the id of the forwarded copy resolves to the chat the message
  came from.
\<close>

lemma forward_to_admin_bd:
  "forward_message_result e (calls s) (ADMIN_ID cfg) (chat_id u) (message_id u) = Some fid \<Longrightarrow>
   bd (forward_to_admin cfg e u s) = recordForward (bd s) fid (chat_id u)"
  by (simp add: forward_to_admin_def forward_message_def)

lemma handle_message_bd:
  "bd (snd (handle_message cfg e u s)) = bd (forward_to_admin cfg e u s)"
  by (simp add: handle_message_def Let_def reply_text_def ask_gemini_def generate_content_def
      split: prod.splits option.splits bool.splits sum.splits)

lemma forwarded_message_routes_back:
  assumes "forward_message_result e (calls s) (ADMIN_ID cfg) (chat_id u) (message_id u) = Some fid"
  shows "resolveOrigin (bd (snd (handle_message cfg e u s))) fid = Some (chat_id u)"
  using assms
  by (simp add: handle_message_bd forward_to_admin_bd resolveOrigin_def recordForward_def
      the_forwarded_map_def)

section \<open>Claims\<close>

text \<open>
  C1, as stated: after the branch taken on the availability flag, one more fixed closing
  notice is sent to the user, also when the administrator is available. On the code
  this fails: with the administrator available the handler sends the acknowledgment of
  line 141 and returns at line 144, so the user gets one reply and no notice after it.
\<close>

theorem C1_available_single_reply:
  "calls (snd (handle_message cfg_client env_ok user_msg st_available)) =
     [ForwardMessage 99 7 1, ReplyText 7 NOTICE_48H]"
  by (simp add: handle_message_def forward_to_admin_def forward_message_def reply_text_def
      getAvailability_def recordForward_def cfg_client_def env_ok_def user_msg_def
      st_available_def)

text \<open>
  C1, amended. With the administrator available, the inbound handler returns normally
  after the forwarding step and one reply with the fixed text, its last call. With the
  administrator away and no generation client, it sends the fixed text twice, the
  second being the closing notice. With the administrator away, a client configured and
  the notice of line 148 delivered, it asks the service once, sends the (truncated)
  reply and then the closing notice as its last call.
\<close>

theorem C1_closing_notice:
  "(getAvailability (bd s) \<longrightarrow>
      fst (handle_message cfg e u s) = Inr () \<and>
      calls (snd (handle_message cfg e u s)) =
        calls s @ forward_calls cfg e u s @ [ReplyText (chat_id u) NOTICE_48H])
   \<and> (\<not> getAvailability (bd s) \<and> \<not> genai_client cfg \<longrightarrow>
      fst (handle_message cfg e u s) = Inr () \<and>
      calls (snd (handle_message cfg e u s)) =
        calls s @ forward_calls cfg e u s
          @ [ReplyText (chat_id u) NOTICE_48H, ReplyText (chat_id u) NOTICE_48H])
   \<and> (\<not> getAvailability (bd s) \<and> genai_client cfg
        \<and> send_ok e (calls s @ forward_calls cfg e u s) (chat_id u) REPLYING \<longrightarrow>
      fst (handle_message cfg e u s) = Inr () \<and>
      calls (snd (handle_message cfg e u s)) =
        calls s @ forward_calls cfg e u s
          @ [ReplyText (chat_id u) REPLYING, GenerateContent (prompt_for u),
             ReplyText (chat_id u) (truncate_reply (auto_reply cfg e u s)),
             ReplyText (chat_id u) NOTICE_48H])"
  using handle_message_available [of s cfg e u]
    handle_message_away_no_client [of s cfg e u]
    handle_message_away_client [of s cfg e u]
  by blast

theorem C1_closing_notice_witness:
  "getAvailability (bd st_available)
   \<and> calls (snd (handle_message cfg_client env_ok user_msg st_available)) =
       [ForwardMessage 99 7 1, ReplyText 7 NOTICE_48H]
   \<and> \<not> getAvailability (bd st_away) \<and> \<not> genai_client cfg_no_client
   \<and> calls (snd (handle_message cfg_no_client env_ok user_msg st_away)) =
       [ForwardMessage 99 7 1, ReplyText 7 NOTICE_48H, ReplyText 7 NOTICE_48H]
   \<and> genai_client cfg_client \<and> send_ok env_ok [ForwardMessage 99 7 1] 7 REPLYING
   \<and> calls (snd (handle_message cfg_client env_ok user_msg st_away)) =
       [ForwardMessage 99 7 1, ReplyText 7 REPLYING, GenerateContent (prompt_for user_msg),
        ReplyText 7 (asc ''Hi there''), ReplyText 7 NOTICE_48H]"
  using C1_closing_notice [of st_available cfg_client env_ok user_msg]
    C1_closing_notice [of st_away cfg_no_client env_ok user_msg]
    C1_closing_notice [of st_away cfg_client env_ok user_msg]
  by (simp add: st_available_def st_away_def cfg_client_def cfg_no_client_def env_ok_def
      user_msg_def getAvailability_def forward_calls_def auto_reply_def truncate_reply_def
      response_text_def asc_def)

text \<open>
  C2. Every message from a sender other than the administrator should reach the
  administrator, replies included. On the code a message from another sender that is a
  reply to some message (and is not the start command) is taken by the reply handler,
  registered before the inbound handler, which returns at line 88: nothing is
  forwarded, nothing is sent, and the state is unchanged.
\<close>

theorem C2_nonadmin_reply_dropped:
  "user_id u \<noteq> ADMIN_ID cfg \<Longrightarrow> reply_to_message u = Some replied \<Longrightarrow>
   command u \<noteq> Some (asc ''start'') \<Longrightarrow>
   dispatch cfg e u s = (Inr (), s)"
  by (simp add: dispatch_def admin_reply_handler_def available_cmd_def away_cmd_def)

theorem C2_nonadmin_reply_dropped_witness:
  "user_id user_reply_msg \<noteq> ADMIN_ID cfg_client
   \<and> reply_to_message user_reply_msg = Some 3
   \<and> command user_reply_msg \<noteq> Some (asc ''start'')
   \<and> dispatch cfg_client env_ok user_reply_msg st_away = (Inr (), st_away)
   \<and> calls (snd (dispatch cfg_client env_ok user_reply_msg st_away)) = []"
  using C2_nonadmin_reply_dropped [of user_reply_msg cfg_client 3 env_ok st_away]
  by (simp add: user_reply_msg_def user_msg_def cfg_client_def st_away_def)

text \<open>
  C3. For every forwarded-message id and origin conversation id, recording the mapping
  and then resolving the forwarded-message id returns exactly the origin id, whatever
  the routing state was before.
\<close>

theorem C3_record_then_resolve:
  "resolveOrigin (recordForward d fid origin) fid = Some origin"
  by (simp add: resolveOrigin_def recordForward_def the_forwarded_map_def)




text \<open>
  C5. While the administrator is available, handling an inbound message issues no
  call to the generation service: the number of such calls is the same after the
  handler as before it.
\<close>

theorem C5_no_generation_while_available:
  "getAvailability (bd s) \<Longrightarrow>
     generation_calls (snd (handle_message cfg e u s)) = generation_calls s"
  by (simp add: generation_calls_def handle_message_available forward_calls_def
      split: option.splits)

theorem C5_witness:
  "getAvailability (bd st_available) \<and>
   generation_calls (snd (handle_message cfg_client env_ok user_msg st_available)) = 0"
  using C5_no_generation_while_available [of st_available cfg_client env_ok user_msg]
  by (simp add: st_available_def getAvailability_def generation_calls_def)

text \<open>
  C6. When the administrator replies to a message whose id is not a key of the routing
  table, the handler's only call is the not-found reply to the administrator's message,
  and the routing table and the availability flag are unchanged.
\<close>

theorem C6_reply_to_unknown_id:
  "user_id u = ADMIN_ID cfg \<Longrightarrow> reply_to_message u = Some replied \<Longrightarrow>
   replied \<notin> dom (the_forwarded_map (bd s)) \<Longrightarrow>
   bd (snd (admin_reply_handler cfg e u s)) = bd s
   \<and> calls (snd (admin_reply_handler cfg e u s)) = calls s @ [ReplyText (chat_id u) CANNOT_FIND]"
  using admin_reply_not_found [of u cfg replied s e]
  by (simp add: raise_unless_reply_text resolveOrigin_def domIff)

theorem C6_reply_to_unknown_id_witness:
  "user_id admin_reply_msg = ADMIN_ID cfg_client
   \<and> reply_to_message admin_reply_msg = Some 500
   \<and> 500 \<notin> dom (the_forwarded_map (bd st_away))
   \<and> bd (snd (admin_reply_handler cfg_client env_ok admin_reply_msg st_away)) = bd st_away
   \<and> calls (snd (admin_reply_handler cfg_client env_ok admin_reply_msg st_away)) =
       [ReplyText 99 CANNOT_FIND]"
  using C6_reply_to_unknown_id [of admin_reply_msg cfg_client 500 st_away env_ok]
  by (simp add: admin_reply_msg_def cfg_client_def st_away_def the_forwarded_map_def)

text \<open>
  C7, as stated: recording a mapping for an id that is already a key is a no-op. On the
  code the assignment of line 128 replaces the entry: after recording 500 to 8 in a
  table that maps 500 to 7, the lookup gives 8 and the table has changed.
\<close>

theorem C7_duplicate_overwrites:
  "resolveOrigin bd_one 500 = Some 7
   \<and> resolveOrigin (recordForward bd_one 500 8) 500 = Some 8
   \<and> the_forwarded_map (recordForward bd_one 500 8) \<noteq> the_forwarded_map bd_one"
proof -
  have "the_forwarded_map (recordForward bd_one 500 8) 500 \<noteq> the_forwarded_map bd_one 500"
    by (simp add: recordForward_def the_forwarded_map_def bd_one_def)
  then have "the_forwarded_map (recordForward bd_one 500 8) \<noteq> the_forwarded_map bd_one"
    by metis
  then show ?thesis
    by (simp add: resolveOrigin_def recordForward_def the_forwarded_map_def bd_one_def)
qed

text \<open>
  C7, amended. Recording a mapping for an id that is already a key replaces its origin
  id by the new one; every other key and the availability flag are unchanged.
\<close>

theorem C7_record_overwrites:
  "resolveOrigin d fid = Some old \<Longrightarrow>
   resolveOrigin (recordForward d fid new) fid = Some new
   \<and> (\<forall>k. k \<noteq> fid \<longrightarrow> resolveOrigin (recordForward d fid new) k = resolveOrigin d k)
   \<and> admin_available (recordForward d fid new) = admin_available d"
  by (simp add: resolveOrigin_def recordForward_def the_forwarded_map_def)

theorem C7_record_overwrites_witness:
  "resolveOrigin bd_one 500 = Some 7
   \<and> resolveOrigin (recordForward bd_one 500 8) 500 = Some 8
   \<and> resolveOrigin (recordForward bd_one 500 8) 501 = resolveOrigin bd_one 501"
  using C7_record_overwrites [of bd_one 500 7 8]
  by (simp add: bd_one_def resolveOrigin_def the_forwarded_map_def)

text \<open>
  C8. The available and away commands issued by anyone but the administrator return
  at once: no call is issued and the whole state, availability flag included, is
  unchanged. The same holds for the dispatch of such a command.
\<close>

theorem C8_commands_ignore_others:
  "user_id u \<noteq> ADMIN_ID cfg \<Longrightarrow>
   available_cmd cfg e u s = (Inr (), s) \<and> away_cmd cfg e u s = (Inr (), s)
   \<and> (command u = Some (asc ''available'') \<or> command u = Some (asc ''away'')
        \<longrightarrow> dispatch cfg e u s = (Inr (), s))"
  by (auto simp add: available_cmd_def away_cmd_def dispatch_def asc_def)

theorem C8_commands_ignore_others_witness:
  "user_id user_available_cmd \<noteq> ADMIN_ID cfg_client
   \<and> command user_available_cmd = Some (asc ''available'')
   \<and> dispatch cfg_client env_ok user_available_cmd st_available = (Inr (), st_available)
   \<and> user_id user_away_cmd \<noteq> ADMIN_ID cfg_client
   \<and> command user_away_cmd = Some (asc ''away'')
   \<and> dispatch cfg_client env_ok user_away_cmd st_available = (Inr (), st_available)
   \<and> away_cmd cfg_client env_ok user_away_cmd st_available = (Inr (), st_available)
   \<and> available_cmd cfg_client env_ok user_available_cmd st_away = (Inr (), st_away)"
  using C8_commands_ignore_others [of user_available_cmd cfg_client env_ok st_available]
    C8_commands_ignore_others [of user_away_cmd cfg_client env_ok st_available]
    C8_commands_ignore_others [of user_available_cmd cfg_client env_ok st_away]
  by (simp add: user_available_cmd_def user_away_cmd_def user_msg_def cfg_client_def)

text \<open>
  C9, as stated: the adapter returns the generated reply text or a fixed fallback
  string. On the code, when the service answers with an empty text, the adapter returns
  the string form of the response object, which is neither.
\<close>

theorem C9_string_form_returned:
  "fst (ask_gemini cfg_client env_empty_text (asc ''Hi'') st_away) = Inr (asc ''<response>'')
   \<and> generate_content_result env_empty_text [] (asc ''Hi'')
        = Some \<lparr>resp_text = Some [], resp_str = asc ''<response>''\<rparr>
   \<and> asc ''<response>'' \<notin> {[], NO_CLIENT_FALLBACK, GEMINI_ERROR_FALLBACK}"
  by (simp add: ask_gemini_def generate_content_def response_text_def cfg_client_def
      env_empty_text_def env_ok_def st_away_def NO_CLIENT_FALLBACK_def
      GEMINI_ERROR_FALLBACK_def asc_def)

text \<open>
  C9, amended. For every prompt the adapter returns a string and never raises. Without
  a client it returns the first fixed fallback and calls nothing. With a client it
  calls the service once; when the call raises it returns the second fixed fallback;
  when the response has a non-empty text it returns that text; when the text is absent
  or empty it returns the string form of the response.
\<close>

theorem C9_ask_gemini_returns:
  "(\<exists>t. fst (ask_gemini cfg e prompt s) = Inr t)
   \<and> (\<not> genai_client cfg \<longrightarrow> ask_gemini cfg e prompt s = (Inr NO_CLIENT_FALLBACK, s))
   \<and> (genai_client cfg \<longrightarrow>
        calls (snd (ask_gemini cfg e prompt s)) = calls s @ [GenerateContent prompt]
        \<and> bd (snd (ask_gemini cfg e prompt s)) = bd s)
   \<and> (genai_client cfg \<and> generate_content_result e (calls s) prompt = None \<longrightarrow>
        fst (ask_gemini cfg e prompt s) = Inr GEMINI_ERROR_FALLBACK)
   \<and> (\<forall>r t. genai_client cfg \<and> generate_content_result e (calls s) prompt = Some r
              \<and> resp_text r = Some t \<and> t \<noteq> [] \<longrightarrow>
        fst (ask_gemini cfg e prompt s) = Inr t)
   \<and> (\<forall>r. genai_client cfg \<and> generate_content_result e (calls s) prompt = Some r
              \<and> (resp_text r = None \<or> resp_text r = Some []) \<longrightarrow>
        fst (ask_gemini cfg e prompt s) = Inr (resp_str r))"
  by (auto simp add: ask_gemini_def generate_content_def response_text_def
      split: option.splits)

theorem C9_ask_gemini_returns_witness:
  "\<not> genai_client cfg_no_client
   \<and> ask_gemini cfg_no_client env_ok (asc ''Hi'') st_away = (Inr NO_CLIENT_FALLBACK, st_away)
   \<and> genai_client cfg_client
   \<and> generate_content_result env_gen_fails (calls st_away) (asc ''Hi'') = None
   \<and> fst (ask_gemini cfg_client env_gen_fails (asc ''Hi'') st_away) = Inr GEMINI_ERROR_FALLBACK
   \<and> fst (ask_gemini cfg_client env_ok (asc ''Hi'') st_away) = Inr (asc ''Hi there'')
   \<and> fst (ask_gemini cfg_client env_empty_text (asc ''Hi'') st_away) = Inr (asc ''<response>'')
   \<and> calls (snd (ask_gemini cfg_client env_ok (asc ''Hi'') st_away)) =
        [GenerateContent (asc ''Hi'')]"
  using C9_ask_gemini_returns [of cfg_no_client env_ok "asc ''Hi''" st_away]
    C9_ask_gemini_returns [of cfg_client env_gen_fails "asc ''Hi''" st_away]
    C9_ask_gemini_returns [of cfg_client env_ok "asc ''Hi''" st_away]
    C9_ask_gemini_returns [of cfg_client env_empty_text "asc ''Hi''" st_away]
  by (simp add: cfg_no_client_def cfg_client_def env_gen_fails_def env_ok_def
      env_empty_text_def st_away_def asc_def)

text \<open>
  C10. The administrator-reply handler tests the looked-up value, not the presence of
  the key: when the replied-to id is a key of the routing table mapped to the chat id
  0, the handler's only call is the not-found reply, so nothing is sent to chat 0.
\<close>

theorem C10_falsy_origin_is_not_found:
  "user_id u = ADMIN_ID cfg \<Longrightarrow> reply_to_message u = Some replied \<Longrightarrow>
   resolveOrigin (bd s) replied = Some 0 \<Longrightarrow>
   replied \<in> dom (the_forwarded_map (bd s))
   \<and> bd (snd (admin_reply_handler cfg e u s)) = bd s
   \<and> calls (snd (admin_reply_handler cfg e u s)) = calls s @ [ReplyText (chat_id u) CANNOT_FIND]"
  using admin_reply_not_found [of u cfg replied s e]
  by (auto simp add: raise_unless_reply_text resolveOrigin_def)

theorem C10_falsy_origin_is_not_found_witness:
  "user_id admin_reply_msg = ADMIN_ID cfg_client
   \<and> reply_to_message admin_reply_msg = Some 500
   \<and> resolveOrigin (bd (st_mapped 0)) 500 = Some 0
   \<and> 500 \<in> dom (the_forwarded_map (bd (st_mapped 0)))
   \<and> calls (snd (admin_reply_handler cfg_client env_ok admin_reply_msg (st_mapped 0))) =
       [ReplyText 99 CANNOT_FIND]"
  using C10_falsy_origin_is_not_found [of admin_reply_msg cfg_client 500 "st_mapped 0" env_ok]
  by (simp add: admin_reply_msg_def cfg_client_def st_mapped_def the_forwarded_map_def
      resolveOrigin_def)

end
